theory Spec2Isabelle
  imports Complex_Main
begin

section \<open>JavaScript values and conversions\<close>

text \<open>
  The rows that come back from the backend are untyped in \<^verbatim>\<open>src/api.ts\<close>. Where the
  module converts such a value itself (\<^verbatim>\<open>Number\<close>, \<^verbatim>\<open>String\<close>, \<^verbatim>\<open>Boolean\<close>, \<^verbatim>\<open>||\<close>) the
  value is modelled as a \<open>jsval\<close> and the conversion is written out. Numbers are the
  integers and \<open>NaN\<close>: the converted columns hold day numbers, capacities and hours.
  Fractions, exponents, radix prefixes and \<^verbatim>\<open>Infinity\<close> are outside this fragment (a
  string holding one converts to \<open>NaN\<close> here), and so are integers of 22 digits or
  more, which JavaScript prints in exponent notation.
\<close>

datatype jsnum = Fin int | NaN

datatype jsval = JUndefined | JNull | JBool bool | JNum jsnum | JStr string

definition digit_char :: "nat \<Rightarrow> char" where
  "digit_char d = ''0123456789'' ! d"

function decimal :: "nat \<Rightarrow> string" where
  "decimal n = (if n < 10 then [digit_char n] else decimal (n div 10) @ [digit_char (n mod 10)])"
  by pat_completeness auto
termination
  by (relation "measure (\<lambda>n. n)") auto

declare decimal.simps [simp del]

text \<open>\<^verbatim>\<open>String(n)\<close> for a number \<open>n\<close>.\<close>

definition NumberToString :: "jsnum \<Rightarrow> string" where
  "NumberToString n =
     (case n of
        NaN \<Rightarrow> ''NaN''
      | Fin i \<Rightarrow> (if i < 0 then CHR ''-'' # decimal (nat (- i)) else decimal (nat i)))"

definition digit_val :: "char \<Rightarrow> nat option" where
  "digit_val c =
     map_of [(CHR ''0'', 0), (CHR ''1'', 1), (CHR ''2'', 2), (CHR ''3'', 3), (CHR ''4'', 4),
             (CHR ''5'', 5), (CHR ''6'', 6), (CHR ''7'', 7), (CHR ''8'', 8), (CHR ''9'', 9)] c"

fun digits_val :: "string \<Rightarrow> nat \<Rightarrow> nat option" where
  "digits_val [] acc = Some acc"
| "digits_val (c # cs) acc =
     (case digit_val c of None \<Rightarrow> None | Some d \<Rightarrow> digits_val cs (10 * acc + d))"

definition unsigned_val :: "string \<Rightarrow> nat option" where
  "unsigned_val cs = (if cs = [] then None else digits_val cs 0)"

text \<open>White space and line terminators of ASCII: tab, LF, VT, FF, CR, space.\<close>

definition is_js_space :: "char \<Rightarrow> bool" where
  "is_js_space c = (c \<in> set [CHR 0x09, CHR 0x0A, CHR 0x0B, CHR 0x0C, CHR 0x0D, CHR 0x20])"

definition js_trim :: "string \<Rightarrow> string" where
  "js_trim s = rev (dropWhile is_js_space (rev (dropWhile is_js_space s)))"

text \<open>\<^verbatim>\<open>Number(s)\<close> for a string \<open>s\<close>: the empty (or blank) string is 0.\<close>

definition StringToNumber :: "string \<Rightarrow> jsnum" where
  "StringToNumber s =
     (case js_trim s of
        [] \<Rightarrow> Fin 0
      | c # cs \<Rightarrow>
          if c = CHR ''-'' then (case unsigned_val cs of None \<Rightarrow> NaN | Some n \<Rightarrow> Fin (- int n))
          else if c = CHR ''+'' then (case unsigned_val cs of None \<Rightarrow> NaN | Some n \<Rightarrow> Fin (int n))
          else (case unsigned_val (c # cs) of None \<Rightarrow> NaN | Some n \<Rightarrow> Fin (int n)))"

definition js_Number :: "jsval \<Rightarrow> jsnum" where
  "js_Number v =
     (case v of
        JUndefined \<Rightarrow> NaN
      | JNull \<Rightarrow> Fin 0
      | JBool b \<Rightarrow> Fin (if b then 1 else 0)
      | JNum n \<Rightarrow> n
      | JStr s \<Rightarrow> StringToNumber s)"

definition js_String :: "jsval \<Rightarrow> string" where
  "js_String v =
     (case v of
        JUndefined \<Rightarrow> ''undefined''
      | JNull \<Rightarrow> ''null''
      | JBool b \<Rightarrow> (if b then ''true'' else ''false'')
      | JNum n \<Rightarrow> NumberToString n
      | JStr s \<Rightarrow> s)"

text \<open>\<^verbatim>\<open>Boolean(v)\<close>, which is also the test that \<^verbatim>\<open>||\<close> and \<^verbatim>\<open>if\<close> make.\<close>

definition js_Boolean :: "jsval \<Rightarrow> bool" where
  "js_Boolean v =
     (case v of
        JUndefined \<Rightarrow> False
      | JNull \<Rightarrow> False
      | JBool b \<Rightarrow> b
      | JNum NaN \<Rightarrow> False
      | JNum (Fin i) \<Rightarrow> i \<noteq> 0
      | JStr s \<Rightarrow> s \<noteq> [])"

text \<open>\<^verbatim>\<open>a || b\<close>.\<close>

definition js_or :: "jsval \<Rightarrow> jsval \<Rightarrow> jsval" where
  "js_or a b = (if js_Boolean a then a else b)"

section \<open>The remote backend\<close>

text \<open>
  Modelled from the spec: the client \<^verbatim>\<open>./supabase\<close> and the store behind it are not
  among the sources. Section 6 of the spec describes a remote store with one table per
  entity family, snake-case columns, and select, insert, update and delete with equality
  filters; \<^verbatim>\<open>src/api.ts\<close> reads \<^verbatim>\<open>{ data, error }\<close> off every answer.

  Every operation of \<^verbatim>\<open>src/api.ts\<close> is a sequence of requests to that store. A request
  either fails, with an error object and no effect on the store, or is served against
  the tables. Whether a request fails (network, access policy, a constraint of the
  schema) is the environment's choice: the world carries a queue with one entry per
  request still to come, \<open>Some e\<close> for a request that fails with \<open>e\<close>; once the queue is
  empty every request is served. A row-level filter selects among the rows of a table in
  their order; \<^verbatim>\<open>.single()\<close> answers with an error unless exactly one row is selected.
\<close>

datatype remote_error =
    PGRST116  \<comment> \<open>\<^verbatim>\<open>.single()\<close> found no row, or more than one\<close>
  | RemoteFailure string

type_synonym fault = "remote_error option"

text \<open>What an operation throws: the backend's error object, or an \<^verbatim>\<open>Error\<close> of its own.\<close>

datatype api_error = Thrown remote_error | Error string

text \<open>
  Modelled from the spec: the entity types of \<^verbatim>\<open>../types\<close> and the schema of the tables
  are not among the sources; the fields are those of section 3 of the spec and the
  columns are those \<^verbatim>\<open>src/api.ts\<close> names. Rows are one record per table. Columns that the
  store fills in and no operation below reads (\<^verbatim>\<open>purchase_date\<close>) are left out. Credits,
  minutes and capacities are integers; prices are only ever copied.
\<close>

record profile_row =
  p_id :: string
  p_email :: string
  full_name :: string
  p_role :: string
  avatar_url :: string
  package_credits :: int

record class_type_row =
  c_id :: string
  c_name :: string
  c_description :: string
  duration_minutes :: int
  c_capacity :: int
  c_price :: real

record enrollment_row =
  e_id :: string
  e_session_id :: string
  e_user_id :: string

record package_row =
  pkg_id :: string
  pkg_name :: string
  pkg_credits :: int
  pkg_price :: real
  pkg_active :: bool

record purchase_row =
  pur_id :: string
  pur_user_id :: string
  pur_package_id :: string
  package_name :: string
  amount_paid :: real
  credits_added :: int

record availability_row =
  a_id :: string
  a_instructor_id :: string
  day_of_week :: jsval
  a_start_time :: string
  a_end_time :: string

record setting_row =
  s_key :: string
  s_value :: jsval

record world =
  profiles :: "profile_row list"
  class_types :: "class_type_row list"
  enrollments :: "enrollment_row list"
  packages :: "package_row list"
  purchases :: "purchase_row list"
  availability :: "availability_row list"
  settings :: "setting_row list"
  auth_user :: "string option"  \<comment> \<open>the id of the signed-in identity, if any\<close>
  faults :: "fault list"
  next_key :: nat  \<comment> \<open>the store's generator of primary keys\<close>
  console :: "string list"

definition next_fault :: "world \<Rightarrow> fault \<times> world" where
  "next_fault w = (case faults w of [] \<Rightarrow> (None, w) | f # fs \<Rightarrow> (f, w\<lparr>faults := fs\<rparr>))"

definition fresh_key :: "world \<Rightarrow> string \<times> world" where
  "fresh_key w = (decimal (next_key w), w\<lparr>next_key := Suc (next_key w)\<rparr>)"

text \<open>\<^verbatim>\<open>{ data, error }\<close> of a read: \<open>Inr data\<close>, or \<open>Inl error\<close> with \<^verbatim>\<open>data\<close> null.\<close>

definition select_rows :: "fault \<Rightarrow> 'r list \<Rightarrow> remote_error + 'r list" where
  "select_rows f rows = (case f of Some e \<Rightarrow> Inl e | None \<Rightarrow> Inr rows)"

definition single :: "fault \<Rightarrow> 'r list \<Rightarrow> remote_error + 'r" where
  "single f rows =
     (case f of
        Some e \<Rightarrow> Inl e
      | None \<Rightarrow> (case rows of [r] \<Rightarrow> Inr r | _ \<Rightarrow> Inl PGRST116))"

text \<open>\<^verbatim>\<open>from('profiles').select(..).eq('id', id).single()\<close>\<close>

definition select_profile_single :: "string \<Rightarrow> world \<Rightarrow> (remote_error + profile_row) \<times> world" where
  "select_profile_single i w =
     (let (f, w1) = next_fault w in (single f (filter (\<lambda>p. p_id p = i) (profiles w1)), w1))"

text \<open>\<^verbatim>\<open>from('profiles').update({ package_credits: v }).eq('id', id)\<close>\<close>

definition update_package_credits :: "string \<Rightarrow> int \<Rightarrow> world \<Rightarrow> fault \<times> world" where
  "update_package_credits i v w =
     (let (f, w1) = next_fault w in
      case f of
        Some e \<Rightarrow> (Some e, w1)
      | None \<Rightarrow>
          (None, w1\<lparr>profiles :=
             map (\<lambda>p. if p_id p = i then p\<lparr>package_credits := v\<rparr> else p) (profiles w1)\<rparr>))"

text \<open>\<^verbatim>\<open>from('enrollments').select('id').eq('session_id', s).eq('user_id', u).single()\<close>\<close>

definition select_enrollment_single ::
  "string \<Rightarrow> string \<Rightarrow> world \<Rightarrow> (remote_error + enrollment_row) \<times> world" where
  "select_enrollment_single s u w =
     (let (f, w1) = next_fault w in
      (single f (filter (\<lambda>e. e_session_id e = s \<and> e_user_id e = u) (enrollments w1)), w1))"

text \<open>\<^verbatim>\<open>from('enrollments').insert({ session_id: s, user_id: u })\<close>\<close>

definition insert_enrollment :: "string \<Rightarrow> string \<Rightarrow> world \<Rightarrow> fault \<times> world" where
  "insert_enrollment s u w =
     (let (f, w1) = next_fault w in
      case f of
        Some e \<Rightarrow> (Some e, w1)
      | None \<Rightarrow>
          (let (k, w2) = fresh_key w1 in
           (None, w2\<lparr>enrollments :=
              enrollments w2 @ [\<lparr>e_id = k, e_session_id = s, e_user_id = u\<rparr>]\<rparr>)))"

text \<open>\<^verbatim>\<open>from('packages').select('*').eq('id', id).single()\<close>\<close>

definition select_package_single :: "string \<Rightarrow> world \<Rightarrow> (remote_error + package_row) \<times> world" where
  "select_package_single i w =
     (let (f, w1) = next_fault w in (single f (filter (\<lambda>k. pkg_id k = i) (packages w1)), w1))"

text \<open>\<^verbatim>\<open>from('packages').update({ name, credits, price }).eq('id', id)\<close>\<close>

definition update_package :: "string \<Rightarrow> string \<Rightarrow> int \<Rightarrow> real \<Rightarrow> world \<Rightarrow> fault \<times> world" where
  "update_package i n c pr w =
     (let (f, w1) = next_fault w in
      case f of
        Some e \<Rightarrow> (Some e, w1)
      | None \<Rightarrow>
          (None, w1\<lparr>packages :=
             map (\<lambda>k. if pkg_id k = i then k\<lparr>pkg_name := n, pkg_credits := c, pkg_price := pr\<rparr> else k)
               (packages w1)\<rparr>))"

text \<open>
  \<^verbatim>\<open>from(table).insert(payload)\<close>: the payload is the row without its primary key, which
  the store generates.
\<close>

definition insert_purchase :: "(string \<Rightarrow> purchase_row) \<Rightarrow> world \<Rightarrow> fault \<times> world" where
  "insert_purchase payload w =
     (let (f, w1) = next_fault w in
      case f of
        Some e \<Rightarrow> (Some e, w1)
      | None \<Rightarrow>
          (let (k, w2) = fresh_key w1 in (None, w2\<lparr>purchases := purchases w2 @ [payload k]\<rparr>)))"

definition insert_class_type :: "(string \<Rightarrow> class_type_row) \<Rightarrow> world \<Rightarrow> fault \<times> world" where
  "insert_class_type payload w =
     (let (f, w1) = next_fault w in
      case f of
        Some e \<Rightarrow> (Some e, w1)
      | None \<Rightarrow>
          (let (k, w2) = fresh_key w1 in (None, w2\<lparr>class_types := class_types w2 @ [payload k]\<rparr>)))"

definition insert_availability :: "(string \<Rightarrow> availability_row) \<Rightarrow> world \<Rightarrow> fault \<times> world" where
  "insert_availability payload w =
     (let (f, w1) = next_fault w in
      case f of
        Some e \<Rightarrow> (Some e, w1)
      | None \<Rightarrow>
          (let (k, w2) = fresh_key w1 in (None, w2\<lparr>availability := availability w2 @ [payload k]\<rparr>)))"

text \<open>\<^verbatim>\<open>from('class_types').update(values).eq('id', id)\<close>\<close>

definition update_class_type ::
  "string \<Rightarrow> (class_type_row \<Rightarrow> class_type_row) \<Rightarrow> world \<Rightarrow> fault \<times> world" where
  "update_class_type i upd w =
     (let (f, w1) = next_fault w in
      case f of
        Some e \<Rightarrow> (Some e, w1)
      | None \<Rightarrow>
          (None, w1\<lparr>class_types := map (\<lambda>c. if c_id c = i then upd c else c) (class_types w1)\<rparr>))"

text \<open>\<^verbatim>\<open>supabase.auth.getUser()\<close>: \<^verbatim>\<open>data.user\<close> is null when the request fails.\<close>

definition auth_getUser :: "world \<Rightarrow> string option \<times> world" where
  "auth_getUser w =
     (let (f, w1) = next_fault w in
      ((case f of Some e \<Rightarrow> None | None \<Rightarrow> auth_user w1), w1))"

definition console_log :: "string \<Rightarrow> world \<Rightarrow> world" where
  "console_log msg w = w\<lparr>console := console w @ [msg]\<rparr>"

section \<open>The operations of \<^verbatim>\<open>src/api.ts\<close>\<close>

text \<open>
  An operation takes the world and returns its outcome with the world it leaves:
  \<open>Inl\<close> what it throws, \<open>Inr\<close> what it returns.
\<close>

subsection \<open>Users\<close>

record User =
  u_id :: string
  u_email :: string
  u_name :: string
  u_role :: string  \<comment> \<open>\<^verbatim>\<open>as UserRole\<close> is a cast: the stored text is passed on\<close>
  avatarUrl :: string
  packageCredits :: int

definition toUser :: "profile_row \<Rightarrow> User" where
  "toUser p =
     \<lparr>u_id = p_id p, u_email = p_email p, u_name = full_name p, u_role = p_role p,
      avatarUrl = avatar_url p, packageCredits = package_credits p\<rparr>"

definition getUserById :: "string \<Rightarrow> world \<Rightarrow> (api_error + User option) \<times> world" where
  "getUserById i w =
     (let (r, w1) = select_profile_single i w in
      case r of
        Inl error \<Rightarrow> (Inr None, w1)
      | Inr data \<Rightarrow> (Inr (Some (toUser data)), w1))"

definition createUser :: "User \<Rightarrow> world \<Rightarrow> (api_error + unit) \<times> world" where
  "createUser user w =
     (Inl (Error ''Admin user creation requires backend function''),
      console_log
        ''Creating users via Admin portal requires Supabase Admin API. Skipping Auth creation.'' w)"

definition deleteUser :: "string \<Rightarrow> world \<Rightarrow> (api_error + unit) \<times> world" where
  "deleteUser i w = (Inr (), console_log ''Deleting users requires Admin API'' w)"

definition getCurrentUser :: "world \<Rightarrow> (api_error + User option) \<times> world" where
  "getCurrentUser w =
     (let (user, w1) = auth_getUser w in
      case user of
        None \<Rightarrow> (Inr None, w1)
      | Some uid \<Rightarrow>
          (let (r, w2) = select_profile_single uid w1 in
           case r of
             Inl error \<Rightarrow> (Inr None, console_log ''Error fetching profile:'' w2)
           | Inr profile \<Rightarrow> (Inr (Some (toUser profile)), w2)))"

subsection \<open>Classes\<close>

record ClassType =
  ct_id :: string
  ct_name :: string
  ct_description :: string
  durationMinutes :: int
  priceSingle :: real
  pricePackage :: real
  difficulty :: string
  ct_capacity :: int

definition toClassType :: "class_type_row \<Rightarrow> ClassType" where
  "toClassType c =
     \<lparr>ct_id = c_id c, ct_name = c_name c, ct_description = c_description c,
      durationMinutes = duration_minutes c, priceSingle = c_price c, pricePackage = c_price c,
      difficulty = ''Beginner'', ct_capacity = c_capacity c\<rparr>"

definition getClasses :: "world \<Rightarrow> (api_error + ClassType list) \<times> world" where
  "getClasses w =
     (let (f, w1) = next_fault w in
      case select_rows f (class_types w1) of
        Inl error \<Rightarrow> (Inl (Thrown error), w1)
      | Inr data \<Rightarrow> (Inr (map toClassType data), w1))"

text \<open>The object literal that \<^verbatim>\<open>createClass\<close> inserts; \<^verbatim>\<open>cls.capacity || 10\<close> on a number.\<close>

definition createClass_payload :: "ClassType \<Rightarrow> string \<Rightarrow> class_type_row" where
  "createClass_payload cls k =
     \<lparr>c_id = k, c_name = ct_name cls, c_description = ct_description cls,
      duration_minutes = durationMinutes cls,
      c_capacity = (if ct_capacity cls \<noteq> 0 then ct_capacity cls else 10),
      c_price = priceSingle cls\<rparr>"

definition createClass :: "ClassType \<Rightarrow> world \<Rightarrow> (api_error + unit) \<times> world" where
  "createClass cls w =
     (let (error, w1) = insert_class_type (createClass_payload cls) w in
      case error of
        Some e \<Rightarrow> (Inl (Thrown e), w1)
      | None \<Rightarrow> (Inr (), w1))"

text \<open>The object literal that \<^verbatim>\<open>updateClass\<close> sends: the columns it sets on a row.\<close>

definition updateClass_values :: "ClassType \<Rightarrow> class_type_row \<Rightarrow> class_type_row" where
  "updateClass_values cls c =
     c\<lparr>c_name := ct_name cls, c_description := ct_description cls,
       duration_minutes := durationMinutes cls, c_price := priceSingle cls\<rparr>"

definition updateClass :: "ClassType \<Rightarrow> world \<Rightarrow> (api_error + unit) \<times> world" where
  "updateClass cls w =
     (let (error, w1) = update_class_type (ct_id cls) (updateClass_values cls) w in
      case error of
        Some e \<Rightarrow> (Inl (Thrown e), w1)
      | None \<Rightarrow> (Inr (), w1))"

subsection \<open>Sessions\<close>

definition bookSession :: "string \<Rightarrow> string \<Rightarrow> world \<Rightarrow> (api_error + unit) \<times> world" where
  "bookSession sessionId userId w =
     (let (existing, w1) = select_enrollment_single sessionId userId w in
      case existing of
        Inr row \<Rightarrow> (Inl (Error ''Already enrolled''), w1)
      | Inl _ \<Rightarrow>
          (let (error, w2) = insert_enrollment sessionId userId w1 in
           case error of
             Some e \<Rightarrow> (Inl (Thrown e), w2)
           | None \<Rightarrow>
               (let (profile, w3) = select_profile_single userId w2 in
                case profile of
                  Inr p \<Rightarrow>
                    if package_credits p > 0 then
                      (let (ignored, w4) = update_package_credits userId (package_credits p - 1) w3
                       in (Inr (), w4))
                    else (Inr (), w3)
                | Inl _ \<Rightarrow> (Inr (), w3))))"

subsection \<open>Packages\<close>

text \<open>\<^verbatim>\<open>getPackages\<close> returns the rows as they are: a \<^verbatim>\<open>Package\<close> is a row of the table.\<close>

definition updatePackage :: "package_row \<Rightarrow> world \<Rightarrow> (api_error + unit) \<times> world" where
  "updatePackage pkg w =
     (let (error, w1) = update_package (pkg_id pkg) (pkg_name pkg) (pkg_credits pkg) (pkg_price pkg) w in
      case error of
        Some e \<Rightarrow> (Inl (Thrown e), w1)
      | None \<Rightarrow> (Inr (), w1))"

text \<open>\<^verbatim>\<open>profile?.package_credits || 0\<close>: 0 for a missing profile, and for a balance of 0.\<close>

definition credits_or_0 :: "remote_error + profile_row \<Rightarrow> int" where
  "credits_or_0 profile =
     (case profile of
        Inl _ \<Rightarrow> 0
      | Inr p \<Rightarrow> (if package_credits p \<noteq> 0 then package_credits p else 0))"

definition purchasePackage :: "string \<Rightarrow> string \<Rightarrow> world \<Rightarrow> (api_error + unit) \<times> world" where
  "purchasePackage userId packageId w =
     (let (found, w1) = select_package_single packageId w in
      case found of
        Inl _ \<Rightarrow> (Inl (Error ''Package not found''), w1)
      | Inr pkg \<Rightarrow>
          (let (error, w2) =
                 insert_purchase
                   (\<lambda>k. \<lparr>pur_id = k, pur_user_id = userId, pur_package_id = packageId,
                          package_name = pkg_name pkg, amount_paid = pkg_price pkg,
                          credits_added = pkg_credits pkg\<rparr>) w1
           in case error of
                Some e \<Rightarrow> (Inl (Thrown e), w2)
              | None \<Rightarrow>
                  (let (profile, w3) = select_profile_single userId w2;
                       newCredits = credits_or_0 profile + pkg_credits pkg;
                       (ignored, w4) = update_package_credits userId newCredits w3
                   in (Inr (), w4))))"

subsection \<open>Instructor availability\<close>

record Availability =
  av_id :: string
  av_instructorId :: string
  dayOfWeek :: jsnum
  av_startTime :: string
  av_endTime :: string

text \<open>
  The object literal of \<^verbatim>\<open>getAvailability\<close> names \<^verbatim>\<open>dayOfWeek\<close> twice, first with
  \<^verbatim>\<open>parseInt(a.day_of_week)\<close> and then with \<^verbatim>\<open>Number(a.day_of_week)\<close>; the later property
  is the one the object keeps.
\<close>

definition toAvailability :: "availability_row \<Rightarrow> Availability" where
  "toAvailability a =
     \<lparr>av_id = a_id a, av_instructorId = a_instructor_id a,
      dayOfWeek = js_Number (day_of_week a),
      av_startTime = a_start_time a, av_endTime = a_end_time a\<rparr>"

definition getAvailability :: "string \<Rightarrow> world \<Rightarrow> (api_error + Availability list) \<times> world" where
  "getAvailability instructorId w =
     (let (f, w1) = next_fault w in
      case select_rows f (filter (\<lambda>a. a_instructor_id a = instructorId) (availability w1)) of
        Inl error \<Rightarrow> (Inl (Thrown error), w1)
      | Inr data \<Rightarrow> (Inr (map toAvailability data), w1))"

definition createAvailability_payload :: "Availability \<Rightarrow> string \<Rightarrow> availability_row" where
  "createAvailability_payload avail k =
     \<lparr>a_id = k, a_instructor_id = av_instructorId avail,
      day_of_week = JStr (js_String (JNum (dayOfWeek avail))),
      a_start_time = av_startTime avail, a_end_time = av_endTime avail\<rparr>"

definition createAvailability :: "Availability \<Rightarrow> world \<Rightarrow> (api_error + unit) \<times> world" where
  "createAvailability avail w =
     (let (error, w1) = insert_availability (createAvailability_payload avail) w in
      case error of
        Some e \<Rightarrow> (Inl (Thrown e), w1)
      | None \<Rightarrow> (Inr (), w1))"

subsection \<open>Settings\<close>

record Settings =
  poolCapacity :: jsnum
  cancellationHours :: jsnum
  maintenanceMode :: bool
  contactEmail :: string

text \<open>The \<^verbatim>\<open>forEach\<close> that collects the rows into an object: a later row wins.\<close>

definition settings_object :: "setting_row list \<Rightarrow> (string \<rightharpoonup> jsval)" where
  "settings_object data = fold (\<lambda>item obj. obj(s_key item \<mapsto> s_value item)) data Map.empty"

text \<open>Reading a property: \<^verbatim>\<open>undefined\<close> when the object has none of that name.\<close>

definition property :: "(string \<rightharpoonup> jsval) \<Rightarrow> string \<Rightarrow> jsval" where
  "property obj k = (case obj k of None \<Rightarrow> JUndefined | Some v \<Rightarrow> v)"

text \<open>\<^verbatim>\<open>Number(v) || d\<close>\<close>

definition number_or :: "jsval \<Rightarrow> int \<Rightarrow> jsnum" where
  "number_or v d = (if js_Boolean (JNum (js_Number v)) then js_Number v else Fin d)"

text \<open>\<^verbatim>\<open>s.replace(..)\<close> with the global pattern of one double quote: all are removed.\<close>

definition strip_quotes :: "string \<Rightarrow> string" where
  "strip_quotes s = filter (\<lambda>c. c \<noteq> CHR 0x22) s"

definition getSettings :: "world \<Rightarrow> (api_error + Settings) \<times> world" where
  "getSettings w =
     (let (f, w1) = next_fault w in
      case select_rows f (settings w1) of
        Inl error \<Rightarrow> (Inl (Thrown error), w1)
      | Inr data \<Rightarrow>
          (let obj = settings_object data in
           (Inr \<lparr>poolCapacity = number_or (property obj ''pool_capacity'') 25,
                 cancellationHours = number_or (property obj ''cancellation_hours'') 24,
                 maintenanceMode = (js_Boolean (property obj ''maintenance_mode'') \<or> False),
                 contactEmail =
                   strip_quotes
                     (js_String (js_or (property obj ''contact_email'') (JStr ''admin@lovableswim.com'')))\<rparr>,
            w1)))"

section \<open>Notions used in the statements\<close>

text \<open>The fault of the \<open>n\<close>-th request from now on (counting from 0), \<open>None\<close> if it is served.\<close>

definition fault_at :: "world \<Rightarrow> nat \<Rightarrow> fault" where
  "fault_at w n = (if n < length (faults w) then faults w ! n else None)"

text \<open>The same, read off a queue.\<close>

definition fault_in :: "fault list \<Rightarrow> nat \<Rightarrow> fault" where
  "fault_in fs n = (if n < length fs then fs ! n else None)"

text \<open>
  Integers stand for JavaScript numbers, which add exactly while the operands and the
  sum stay within \<^verbatim>\<open>Number.MAX_SAFE_INTEGER\<close> in magnitude.
\<close>

definition safe_integer :: "int \<Rightarrow> bool" where
  "safe_integer n \<longleftrightarrow> - (2 ^ 53 - 1) \<le> n \<and> n \<le> 2 ^ 53 - 1"

text \<open>The rows of a table that a filter on one or two columns selects.\<close>

definition profiles_of :: "world \<Rightarrow> string \<Rightarrow> profile_row list" where
  "profiles_of w i = filter (\<lambda>p. p_id p = i) (profiles w)"

definition packages_of :: "world \<Rightarrow> string \<Rightarrow> package_row list" where
  "packages_of w i = filter (\<lambda>k. pkg_id k = i) (packages w)"

definition enrollments_of :: "world \<Rightarrow> string \<Rightarrow> string \<Rightarrow> enrollment_row list" where
  "enrollments_of w s u = filter (\<lambda>e. e_session_id e = s \<and> e_user_id e = u) (enrollments w)"

definition availability_of :: "world \<Rightarrow> string \<Rightarrow> availability_row list" where
  "availability_of w i = filter (\<lambda>a. a_instructor_id a = i) (availability w)"

text \<open>How one profile row may differ after a booking, and after a purchase of \<open>c\<close> credits.\<close>

definition unchanged_or_one_less :: "profile_row \<Rightarrow> profile_row \<Rightarrow> bool" where
  "unchanged_or_one_less p p' \<longleftrightarrow>
     p' = p \<or> (0 < package_credits p \<and> p' = p\<lparr>package_credits := package_credits p - 1\<rparr>)"


text \<open>A store to run the operations on.\<close>

definition demo_world :: world where
  "demo_world =
     \<lparr>profiles =
        [\<lparr>p_id = ''u1'', p_email = ''ann@example.org'', full_name = ''Ann'', p_role = ''client'',
          avatar_url = ''a.png'', package_credits = 2\<rparr>,
         \<lparr>p_id = ''u2'', p_email = ''bob@example.org'', full_name = ''Bob'', p_role = ''instructor'',
          avatar_url = ''b.png'', package_credits = 0\<rparr>],
      class_types =
        [\<lparr>c_id = ''c1'', c_name = ''Lap swim'', c_description = ''Lanes'', duration_minutes = 45,
          c_capacity = 8, c_price = 30\<rparr>],
      enrollments = [\<lparr>e_id = ''e1'', e_session_id = ''s1'', e_user_id = ''u2''\<rparr>],
      packages =
        [\<lparr>pkg_id = ''k1'', pkg_name = ''Ten pack'', pkg_credits = 10, pkg_price = 250,
          pkg_active = True\<rparr>],
      purchases = [],
      availability =
        [\<lparr>a_id = ''a1'', a_instructor_id = ''u2'', day_of_week = JStr ''Monday'',
          a_start_time = ''09:00'', a_end_time = ''12:00''\<rparr>],
      settings = [],
      auth_user = Some ''u1'',
      faults = [],
      next_key = 7,
      console = []\<rparr>"

section \<open>Requests and filters\<close>

lemmas backend_defs = next_fault_def fresh_key_def select_rows_def single_def
  select_profile_single_def update_package_credits_def select_enrollment_single_def
  insert_enrollment_def select_package_single_def update_package_def insert_purchase_def
  insert_class_type_def insert_availability_def update_class_type_def auth_getUser_def
  console_log_def

lemma next_fault_eq: "next_fault w = (fault_at w 0, w\<lparr>faults := tl (faults w)\<rparr>)"
proof (cases "faults w")
  case Nil
  then have "w\<lparr>faults := tl (faults w)\<rparr> = w\<lparr>faults := faults w\<rparr>" by simp
  then show ?thesis using Nil by (simp add: next_fault_def fault_at_def)
next
  case (Cons f fs)
  then show ?thesis by (simp add: next_fault_def fault_at_def)
qed

lemma next_fault_served: "faults w = [] \<Longrightarrow> next_fault w = (None, w)"
  by (simp add: next_fault_def)

lemma fault_at_tl: "fault_at (w\<lparr>faults := tl (faults w)\<rparr>) n = fault_at w (Suc n)"
  by (cases "faults w") (simp_all add: fault_at_def)

lemma profiles_of_faults [simp]: "profiles_of (w\<lparr>faults := fs\<rparr>) i = profiles_of w i"
  by (simp add: profiles_of_def)

lemma select_profile_single_eq:
  "select_profile_single i w =
     (single (fault_at w 0) (profiles_of w i), w\<lparr>faults := tl (faults w)\<rparr>)"
  by (simp add: select_profile_single_def next_fault_eq profiles_of_def)

lemma auth_getUser_eq:
  "auth_getUser w =
     ((case fault_at w 0 of Some e \<Rightarrow> None | None \<Rightarrow> auth_user w), w\<lparr>faults := tl (faults w)\<rparr>)"
  by (simp add: auth_getUser_def next_fault_eq split: option.splits)

lemma fault_at_in: "fault_at w n = fault_in (faults w) n"
  by (simp add: fault_at_def fault_in_def)

lemma fault_in_tl: "fault_in (tl fs) n = fault_in fs (Suc n)"
  by (cases fs) (simp_all add: fault_in_def)

lemma next_fault_in: "next_fault w = (fault_in (faults w) 0, w\<lparr>faults := tl (faults w)\<rparr>)"
  by (simp add: next_fault_eq fault_at_in)

lemmas request_steps = select_profile_single_def update_package_credits_def
  select_enrollment_single_def insert_enrollment_def select_package_single_def
  insert_purchase_def next_fault_in fault_in_tl fault_at_in fresh_key_def

lemma single_Inr_iff: "single f rows = Inr r \<longleftrightarrow> f = None \<and> rows = [r]"
  by (simp add: single_def split: option.splits list.splits)

lemma filter_single_mem:
  assumes "filter P xs = [r]"
  shows "r \<in> set xs \<and> P r"
proof -
  have "r \<in> set (filter P xs)" using assms by simp
  then show ?thesis by simp
qed

lemma filter_single_unique:
  assumes "filter P xs = [r]" and "x \<in> set xs" and "P x"
  shows "x = r"
proof -
  have "x \<in> set (filter P xs)" using assms(2,3) by simp
  then show ?thesis using assms(1) by simp
qed

lemma filter_update_single:
  assumes "filter P xs = [r]"
  shows "filter P (map (\<lambda>x. if P x then g r else x) xs) = (if P (g r) then [g r] else [])"
  using assms
proof (induction xs)
  case Nil
  then show ?case by simp
next
  case (Cons x xs)
  show ?case
  proof (cases "P x")
    case True
    with Cons.prems have x: "x = r" and rest: "filter P xs = []" by simp_all
    from rest have "\<forall>y \<in> set xs. \<not> P y" by (simp add: filter_empty_conv)
    then have "map (\<lambda>x. if P x then g r else x) xs = xs" by (simp add: map_idI)
    with True x rest show ?thesis by simp
  next
    case False
    with Cons show ?thesis by simp
  qed
qed

lemma list_all2_same_map: "list_all2 R xs (map f xs) \<longleftrightarrow> (\<forall>x \<in> set xs. R x (f x))"
  by (simp add: list_all2_map2 list_all2_same)

section \<open>Users\<close>

text \<open>
  C3. Claim: \<^verbatim>\<open>createUser\<close> and \<^verbatim>\<open>deleteUser\<close> both fail with an explicit signal that
  administrative capability is required, and neither returns as if it had succeeded.
  On the code this holds for \<^verbatim>\<open>createUser\<close> only: it throws on every input.
  \<^verbatim>\<open>deleteUser\<close> writes a warning to the console and returns normally on every input,
  with no other change to the world.
\<close>

theorem deleteUser_returns_normally:
  "fst (createUser user w) = Inl (Error ''Admin user creation requires backend function'') \<and>
   fst (deleteUser i w) = Inr () \<and>
   snd (deleteUser i w) = w\<lparr>console := console w @ [''Deleting users requires Admin API'']\<rparr>"
  by (simp add: createUser_def deleteUser_def console_log_def)

text \<open>
  C5, as claimed: \<^verbatim>\<open>getUserById\<close> returns \<^verbatim>\<open>undefined\<close> when the row is not found, and
  propagates every other failure of the request to the caller. The second half fails:
  with the row of \<open>u1\<close> in the store and the request failing on the network, the call
  returns \<^verbatim>\<open>undefined\<close> and throws nothing.
\<close>

theorem getUserById_swallows_remote_failure:
  "profiles_of demo_world ''u1'' \<noteq> [] \<and>
   fst (getUserById ''u1'' (demo_world\<lparr>faults := [Some (RemoteFailure ''network'')]\<rparr>)) = Inr None"
  by (simp add: getUserById_def demo_world_def backend_defs profiles_of_def)

text \<open>
  C5, amended: \<^verbatim>\<open>getUserById\<close> never throws. It returns \<^verbatim>\<open>undefined\<close> whenever the
  request reports an error, whether the request itself failed (for any reason) or no
  row has the id, and it returns the mapped row when the request is served and finds
  exactly one row.
\<close>

theorem getUserById_absent_on_any_error:
  "(fault_at w 0 = Some e \<longrightarrow> fst (getUserById i w) = Inr None) \<and>
   (fault_at w 0 = None \<longrightarrow> profiles_of w i = [] \<longrightarrow> fst (getUserById i w) = Inr None) \<and>
   (fault_at w 0 = None \<longrightarrow> profiles_of w i = [p] \<longrightarrow>
      fst (getUserById i w) = Inr (Some (toUser p))) \<and>
   fst (getUserById i w) \<noteq> Inl err"
  by (simp add: getUserById_def select_profile_single_eq single_def
      split: option.splits list.splits sum.splits)

theorem getUserById_absent_on_any_error_witness:
  "fst (getUserById ''u1'' (demo_world\<lparr>faults := [Some PGRST116]\<rparr>)) = Inr None \<and>
   fst (getUserById ''nobody'' demo_world) = Inr None \<and>
   fst (getUserById ''u1'' demo_world) =
     Inr (Some \<lparr>u_id = ''u1'', u_email = ''ann@example.org'', u_name = ''Ann'', u_role = ''client'',
                 avatarUrl = ''a.png'', packageCredits = 2\<rparr>)"
proof -
  let ?ann = "\<lparr>p_id = ''u1'', p_email = ''ann@example.org'', full_name = ''Ann'', p_role = ''client'',
               avatar_url = ''a.png'', package_credits = 2\<rparr>"
  have failing: "fault_at (demo_world\<lparr>faults := [Some PGRST116]\<rparr>) 0 = Some PGRST116"
    by (simp add: fault_at_def)
  have served: "fault_at demo_world 0 = None"
    by (simp add: fault_at_def demo_world_def)
  have nobody: "profiles_of demo_world ''nobody'' = []"
    by (simp add: profiles_of_def demo_world_def)
  have ann: "profiles_of demo_world ''u1'' = [?ann]"
    by (simp add: profiles_of_def demo_world_def)
  show ?thesis
    using getUserById_absent_on_any_error [of "demo_world\<lparr>faults := [Some PGRST116]\<rparr>" PGRST116 "''u1''"]
      getUserById_absent_on_any_error [of demo_world _ "''nobody''"]
      getUserById_absent_on_any_error [of demo_world _ "''u1''" ?ann]
      failing served nobody ann
    by (simp add: toUser_def)
qed

text \<open>
  C9. \<^verbatim>\<open>getCurrentUser\<close> first resolves the signed-in identity and then fetches that
  identity's profile row. It returns \<^verbatim>\<open>null\<close> when the first step gives no identity (the
  request fails, or nobody is signed in) and when the fetch of the profile fails (the
  request fails, or no row has the id); otherwise it returns the mapped row.
\<close>

theorem getCurrentUser_absent_if_either_step_fails:
  "(fault_at w 0 = Some e \<longrightarrow> fst (getCurrentUser w) = Inr None) \<and>
   (auth_user w = None \<longrightarrow> fst (getCurrentUser w) = Inr None) \<and>
   (fault_at w 0 = None \<longrightarrow> auth_user w = Some uid \<longrightarrow> fault_at w 1 = Some e \<longrightarrow>
      fst (getCurrentUser w) = Inr None) \<and>
   (fault_at w 0 = None \<longrightarrow> auth_user w = Some uid \<longrightarrow> fault_at w 1 = None \<longrightarrow>
      profiles_of w uid = [] \<longrightarrow> fst (getCurrentUser w) = Inr None) \<and>
   (fault_at w 0 = None \<longrightarrow> auth_user w = Some uid \<longrightarrow> fault_at w 1 = None \<longrightarrow>
      profiles_of w uid = [p] \<longrightarrow> fst (getCurrentUser w) = Inr (Some (toUser p)))"
  by (simp add: getCurrentUser_def auth_getUser_eq select_profile_single_eq fault_at_tl single_def
      split: option.splits list.splits sum.splits)

theorem getCurrentUser_absent_if_either_step_fails_witness:
  "fst (getCurrentUser (demo_world\<lparr>faults := [Some (RemoteFailure ''offline'')]\<rparr>)) = Inr None \<and>
   fst (getCurrentUser (demo_world\<lparr>auth_user := None\<rparr>)) = Inr None \<and>
   fst (getCurrentUser (demo_world\<lparr>faults := [None, Some (RemoteFailure ''denied'')]\<rparr>)) = Inr None \<and>
   fst (getCurrentUser (demo_world\<lparr>auth_user := Some ''ghost''\<rparr>)) = Inr None \<and>
   fst (getCurrentUser demo_world) =
     Inr (Some \<lparr>u_id = ''u1'', u_email = ''ann@example.org'', u_name = ''Ann'', u_role = ''client'',
                 avatarUrl = ''a.png'', packageCredits = 2\<rparr>)"
proof -
  let ?ann = "\<lparr>p_id = ''u1'', p_email = ''ann@example.org'', full_name = ''Ann'', p_role = ''client'',
               avatar_url = ''a.png'', package_credits = 2\<rparr>"
  let ?offline = "demo_world\<lparr>faults := [Some (RemoteFailure ''offline'')]\<rparr>"
  let ?denied = "demo_world\<lparr>faults := [None, Some (RemoteFailure ''denied'')]\<rparr>"
  let ?ghost = "demo_world\<lparr>auth_user := Some ''ghost''\<rparr>"
  have a: "fault_at ?offline 0 = Some (RemoteFailure ''offline'')"
    by (simp add: fault_at_def)
  have b: "auth_user (demo_world\<lparr>auth_user := None\<rparr>) = None"
    by simp
  have c: "fault_at ?denied 0 = None \<and> auth_user ?denied = Some ''u1'' \<and>
           fault_at ?denied 1 = Some (RemoteFailure ''denied'')"
    by (simp add: fault_at_def demo_world_def)
  have d: "fault_at ?ghost 0 = None \<and> auth_user ?ghost = Some ''ghost'' \<and>
           fault_at ?ghost 1 = None \<and> profiles_of ?ghost ''ghost'' = []"
    by (simp add: fault_at_def profiles_of_def demo_world_def)
  have e: "fault_at demo_world 0 = None \<and> auth_user demo_world = Some ''u1'' \<and>
           fault_at demo_world 1 = None \<and> profiles_of demo_world ''u1'' = [?ann]"
    by (simp add: fault_at_def profiles_of_def demo_world_def)
  show ?thesis
    using getCurrentUser_absent_if_either_step_fails [of ?offline "RemoteFailure ''offline''"]
      getCurrentUser_absent_if_either_step_fails [of "demo_world\<lparr>auth_user := None\<rparr>"]
      getCurrentUser_absent_if_either_step_fails [of ?denied "RemoteFailure ''denied''" "''u1''"]
      getCurrentUser_absent_if_either_step_fails [of ?ghost _ "''ghost''"]
      getCurrentUser_absent_if_either_step_fails [of demo_world _ "''u1''" ?ann]
      a b c d e
    by (simp add: toUser_def)
qed

section \<open>Classes\<close>

text \<open>
  C7. Every class that \<^verbatim>\<open>getClasses\<close> returns has equal \<^verbatim>\<open>priceSingle\<close> and
  \<^verbatim>\<open>pricePackage\<close>: both are the \<^verbatim>\<open>price\<close> column of the stored row the class comes from.
\<close>

theorem getClasses_single_price:
  assumes "fst (getClasses w) = Inr cs" and "c \<in> set cs"
  shows "priceSingle c = pricePackage c \<and>
         (\<exists>row \<in> set (class_types w). priceSingle c = c_price row \<and> pricePackage c = c_price row)"
proof -
  from assms(1) have "cs = map toClassType (class_types w)"
    by (auto simp add: getClasses_def next_fault_eq select_rows_def split: option.splits)
  with assms(2) obtain row where "row \<in> set (class_types w)" and "c = toClassType row"
    by auto
  then show ?thesis
    by (auto simp add: toClassType_def)
qed

theorem getClasses_single_price_witness:
  "fst (getClasses demo_world) =
     Inr [\<lparr>ct_id = ''c1'', ct_name = ''Lap swim'', ct_description = ''Lanes'', durationMinutes = 45,
            priceSingle = 30, pricePackage = 30, difficulty = ''Beginner'', ct_capacity = 8\<rparr>] \<and>
   priceSingle \<lparr>ct_id = ''c1'', ct_name = ''Lap swim'', ct_description = ''Lanes'',
     durationMinutes = 45, priceSingle = 30, pricePackage = 30, difficulty = ''Beginner'',
     ct_capacity = 8\<rparr> =
   pricePackage \<lparr>ct_id = ''c1'', ct_name = ''Lap swim'', ct_description = ''Lanes'',
     durationMinutes = 45, priceSingle = 30, pricePackage = 30, difficulty = ''Beginner'',
     ct_capacity = 8\<rparr>"
proof -
  let ?c = "\<lparr>ct_id = ''c1'', ct_name = ''Lap swim'', ct_description = ''Lanes'', durationMinutes = 45,
             priceSingle = 30, pricePackage = 30, difficulty = ''Beginner'', ct_capacity = 8\<rparr>"
  have listed: "fst (getClasses demo_world) = Inr [?c]"
    by (simp add: getClasses_def demo_world_def backend_defs toClassType_def)
  have "?c \<in> set [?c]"
    by simp
  from getClasses_single_price [OF listed this] listed show ?thesis
    by blast
qed

text \<open>
  C10. Every class that \<^verbatim>\<open>getClasses\<close> returns has the difficulty \<^verbatim>\<open>'Beginner'\<close>: no
  column of the stored row is read for it. What \<^verbatim>\<open>createClass\<close> and \<^verbatim>\<open>updateClass\<close> do,
  their outcome and the store they leave, does not depend on the \<^verbatim>\<open>difficulty\<close> and the
  \<^verbatim>\<open>pricePackage\<close> of the class they are given. So a class created with any difficulty and
  any package price is listed, when the requests are served, as a beginner's class whose
  package price is its single price.
\<close>

theorem difficulty_is_discarded:
  "(fst (getClasses w) = Inr cs \<longrightarrow> list_all (\<lambda>c. difficulty c = ''Beginner'') cs) \<and>
   createClass (cls\<lparr>difficulty := d, pricePackage := pp\<rparr>) w = createClass cls w \<and>
   updateClass (cls\<lparr>difficulty := d, pricePackage := pp\<rparr>) w = updateClass cls w \<and>
   (faults w = [] \<longrightarrow>
      fst (getClasses (snd (createClass (cls\<lparr>difficulty := d, pricePackage := pp\<rparr>) w))) =
        Inr (map toClassType (class_types w) @
             [cls\<lparr>ct_id := decimal (next_key w), pricePackage := priceSingle cls,
                   difficulty := ''Beginner'',
                   ct_capacity := (if ct_capacity cls \<noteq> 0 then ct_capacity cls else 10)\<rparr>]))"
proof -
  have payload: "createClass_payload (cls\<lparr>difficulty := d, pricePackage := pp\<rparr>) = createClass_payload cls"
    by (rule ext) (simp add: createClass_payload_def)
  have vals: "updateClass_values (cls\<lparr>difficulty := d, pricePackage := pp\<rparr>) = updateClass_values cls"
    by (rule ext) (simp add: updateClass_values_def)
  have listed: "fst (getClasses w) = Inr cs \<longrightarrow> list_all (\<lambda>c. difficulty c = ''Beginner'') cs"
    by (auto simp add: getClasses_def next_fault_eq select_rows_def toClassType_def list_all_iff
        split: option.splits)
  have created: "toClassType (createClass_payload cls k) =
      cls\<lparr>ct_id := k, pricePackage := priceSingle cls, difficulty := ''Beginner'',
          ct_capacity := (if ct_capacity cls \<noteq> 0 then ct_capacity cls else 10)\<rparr>" for k
    by (simp add: toClassType_def createClass_payload_def)
  have "faults w = [] \<longrightarrow>
      fst (getClasses (snd (createClass cls w))) =
        Inr (map toClassType (class_types w) @ [toClassType (createClass_payload cls (decimal (next_key w)))])"
    by (simp add: createClass_def insert_class_type_def getClasses_def next_fault_served
        fresh_key_def select_rows_def)
  with payload vals listed show ?thesis
    by (simp add: createClass_def updateClass_def created)
qed

theorem difficulty_is_discarded_witness:
  "list_all (\<lambda>c. difficulty c = ''Beginner'')
     [\<lparr>ct_id = ''c1'', ct_name = ''Lap swim'', ct_description = ''Lanes'', durationMinutes = 45,
       priceSingle = 30, pricePackage = 30, difficulty = ''Beginner'', ct_capacity = 8\<rparr>] \<and>
   fst (getClasses (snd (createClass
      \<lparr>ct_id = ''new'', ct_name = ''Dive'', ct_description = ''Deep end'', durationMinutes = 60,
        priceSingle = 40, pricePackage = 35, difficulty = ''Advanced'', ct_capacity = 0\<rparr> demo_world))) =
     Inr [\<lparr>ct_id = ''c1'', ct_name = ''Lap swim'', ct_description = ''Lanes'', durationMinutes = 45,
            priceSingle = 30, pricePackage = 30, difficulty = ''Beginner'', ct_capacity = 8\<rparr>,
          \<lparr>ct_id = ''7'', ct_name = ''Dive'', ct_description = ''Deep end'', durationMinutes = 60,
            priceSingle = 40, pricePackage = 40, difficulty = ''Beginner'', ct_capacity = 10\<rparr>]"
proof -
  let ?c = "\<lparr>ct_id = ''c1'', ct_name = ''Lap swim'', ct_description = ''Lanes'', durationMinutes = 45,
             priceSingle = 30, pricePackage = 30, difficulty = ''Beginner'', ct_capacity = 8\<rparr>"
  let ?dive = "\<lparr>ct_id = ''new'', ct_name = ''Dive'', ct_description = ''Deep end'', durationMinutes = 60,
                priceSingle = 40, pricePackage = 35, difficulty = ''Advanced'', ct_capacity = 0\<rparr>"
  have listed: "fst (getClasses demo_world) = Inr [?c]"
    by (simp add: getClasses_def demo_world_def backend_defs toClassType_def)
  have served: "faults demo_world = []"
    by (simp add: demo_world_def)
  have same: "?dive\<lparr>difficulty := ''Advanced'', pricePackage := 35\<rparr> = ?dive"
    by simp
  have stored: "map toClassType (class_types demo_world) = [?c]"
    by (simp add: demo_world_def toClassType_def)
  have key: "decimal (next_key demo_world) = ''7''"
    by (simp add: demo_world_def decimal.simps digit_char_def)
  from difficulty_is_discarded
      [where w = demo_world and cs = "[?c]" and cls = ?dive and d = "''Advanced''" and pp = 35]
    listed served
  show ?thesis
    unfolding same stored key by simp
qed

section \<open>Sessions\<close>

lemma bookSession_profiles:
  "list_all2 unchanged_or_one_less (profiles w) (profiles (snd (bookSession s u w)))"
proof -
  have same: "list_all2 unchanged_or_one_less xs xs" for xs
    by (simp add: list_all2_same unchanged_or_one_less_def)
  show ?thesis
    by (auto simp add: bookSession_def select_enrollment_single_def insert_enrollment_def
        select_profile_single_def update_package_credits_def next_fault_eq fresh_key_def
        single_Inr_iff same list_all2_same_map unchanged_or_one_less_def
        split: prod.splits sum.splits option.splits dest: filter_single_unique)
qed

lemma bookSession_enrolled:
  assumes "faults w = []" and "enrollments_of w s u = [row]"
  shows "bookSession s u w = (Inl (Error ''Already enrolled''), w)"
  using assms
  by (simp add: bookSession_def select_enrollment_single_def next_fault_served single_def
      enrollments_of_def)

text \<open>
  Served bookings keep a pair that has at most one enrollment row at one row at most.
\<close>

lemma bookSession_keeps_one_enrollment:
  assumes "faults w = []" and "length (enrollments_of w s' u') \<le> 1"
  shows "length (enrollments_of (snd (bookSession s u w)) s' u') \<le> 1"
proof (cases "enrollments_of w s u")
  case Nil
  then have none: "filter (\<lambda>e. e_session_id e = s \<and> e_user_id e = u) (enrollments w) = []"
    by (simp add: enrollments_of_def)
  have "enrollments (snd (bookSession s u w)) =
      enrollments w @ [\<lparr>e_id = decimal (next_key w), e_session_id = s, e_user_id = u\<rparr>]"
    using assms(1) none
    by (simp add: bookSession_def select_enrollment_single_def insert_enrollment_def
        select_profile_single_def update_package_credits_def next_fault_served fresh_key_def
        single_def split: list.splits)
  then show ?thesis
    using assms(2) none by (auto simp add: enrollments_of_def)
next
  case (Cons row rows)
  then have some: "filter (\<lambda>e. e_session_id e = s \<and> e_user_id e = u) (enrollments w) = row # rows"
    by (simp add: enrollments_of_def)
  show ?thesis
  proof (cases rows)
    case Nil
    with Cons have "enrollments_of w s u = [row]" by simp
    from bookSession_enrolled [OF assms(1) this] show ?thesis
      using assms(2) by simp
  next
    case (Cons row' rows')
    with some have more: "filter (\<lambda>e. e_session_id e = s \<and> e_user_id e = u) (enrollments w) =
        row # row' # rows'"
      by simp
    have "enrollments (snd (bookSession s u w)) = enrollments w \<or>
        enrollments (snd (bookSession s u w)) =
          enrollments w @ [\<lparr>e_id = decimal (next_key w), e_session_id = s, e_user_id = u\<rparr>]"
      using assms(1)
      by (simp add: bookSession_def select_enrollment_single_def insert_enrollment_def
          select_profile_single_def update_package_credits_def next_fault_served fresh_key_def
          single_def split: list.splits)
    then show ?thesis
      using assms(2) more by (auto simp add: enrollments_of_def)
  qed
qed

text \<open>
  The error of the pre-check is not looked at: when that request fails, a user who is
  enrolled already is enrolled once more.
\<close>

lemma bookSession_failed_precheck_books_again:
  "enrollments_of demo_world ''s1'' ''u2'' \<noteq> [] \<and>
   fst (bookSession ''s1'' ''u2'' (demo_world\<lparr>faults := [Some (RemoteFailure ''timeout'')]\<rparr>)) = Inr () \<and>
   length (enrollments_of
     (snd (bookSession ''s1'' ''u2'' (demo_world\<lparr>faults := [Some (RemoteFailure ''timeout'')]\<rparr>)))
     ''s1'' ''u2'') = 2"
  by (simp add: bookSession_def demo_world_def backend_defs enrollments_of_def)

lemma bookSession_enrolled_served:
  assumes "fault_at w 0 = None" and "enrollments_of w s u = [row]"
  shows "bookSession s u w = (Inl (Error ''Already enrolled''), w\<lparr>faults := tl (faults w)\<rparr>)"
  using assms
  by (simp add: bookSession_def select_enrollment_single_def next_fault_eq single_def
      enrollments_of_def)

lemma bookSession_leaves_one_row:
  assumes "length (enrollments_of w s u) \<le> 1"
      and "fault_at w 0 = None"
      and "fst (bookSession s u w) = Inr () \<or> fst (bookSession s u w) = Inl (Error ''Already enrolled'')"
  shows "\<exists>row. enrollments_of (snd (bookSession s u w)) s u = [row]"
proof (cases "enrollments_of w s u")
  case Nil
  then have none: "filter (\<lambda>e. e_session_id e = s \<and> e_user_id e = u) (enrollments w) = []"
    by (simp add: enrollments_of_def)
  show ?thesis
    using assms(2,3) none
    by (simp add: bookSession_def request_steps single_def enrollments_of_def
        split: option.splits prod.splits sum.splits list.splits)
next
  case (Cons row rows)
  with assms(1) have one: "enrollments_of w s u = [row]" by simp
  show ?thesis
    by (simp add: bookSession_enrolled_served [OF assms(2) one] enrollments_of_def
        one [unfolded enrollments_of_def])
qed

text \<open>
  A store that holds two enrollment rows for the pair is read as holding none, since
  \<^verbatim>\<open>.single()\<close> answers with an error and no data: both calls book, on a backend that
  serves every request.
\<close>

lemma bookSession_two_rows_book_again:
  "fst (bookSession ''s1'' ''u1''
          (demo_world\<lparr>enrollments :=
             [\<lparr>e_id = ''e1'', e_session_id = ''s1'', e_user_id = ''u1''\<rparr>,
              \<lparr>e_id = ''e2'', e_session_id = ''s1'', e_user_id = ''u1''\<rparr>]\<rparr>)) = Inr () \<and>
   fst (bookSession ''s1'' ''u1''
          (snd (bookSession ''s1'' ''u1''
             (demo_world\<lparr>enrollments :=
                [\<lparr>e_id = ''e1'', e_session_id = ''s1'', e_user_id = ''u1''\<rparr>,
                 \<lparr>e_id = ''e2'', e_session_id = ''s1'', e_user_id = ''u1''\<rparr>]\<rparr>)))) = Inr () \<and>
   map package_credits
     (profiles_of
        (snd (bookSession ''s1'' ''u1''
           (snd (bookSession ''s1'' ''u1''
              (demo_world\<lparr>enrollments :=
                 [\<lparr>e_id = ''e1'', e_session_id = ''s1'', e_user_id = ''u1''\<rparr>,
                  \<lparr>e_id = ''e2'', e_session_id = ''s1'', e_user_id = ''u1''\<rparr>]\<rparr>)))))
        ''u1'') = [0]"
  by (simp add: bookSession_def demo_world_def backend_defs profiles_of_def)

text \<open>
  C1, as claimed: for every valid user and session, the second of two \<^verbatim>\<open>bookSession\<close>
  calls in sequence fails with \<^verbatim>\<open>'Already enrolled'\<close> and the balance is decremented at
  most once. This fails: \<^verbatim>\<open>bookSession\<close> reads only the data of its pre-check, never its
  error. The user \<open>u1\<close> has two credits and no enrollment for \<open>s1\<close>; the four requests of
  the first call are served and the pre-check of the second call times out. Both calls
  return normally, and the balance goes from 2 to 1 to 0.
\<close>

theorem bookSession_twice_books_twice:
  "enrollments_of demo_world ''s1'' ''u1'' = [] \<and>
   map package_credits (profiles_of demo_world ''u1'') = [2] \<and>
   fst (bookSession ''s1'' ''u1''
          (demo_world\<lparr>faults := [None, None, None, None, Some (RemoteFailure ''timeout'')]\<rparr>)) = Inr () \<and>
   map package_credits
     (profiles_of
        (snd (bookSession ''s1'' ''u1''
           (demo_world\<lparr>faults := [None, None, None, None, Some (RemoteFailure ''timeout'')]\<rparr>)))
        ''u1'') = [1] \<and>
   fst (bookSession ''s1'' ''u1''
          (snd (bookSession ''s1'' ''u1''
             (demo_world\<lparr>faults := [None, None, None, None, Some (RemoteFailure ''timeout'')]\<rparr>)))) =
     Inr () \<and>
   map package_credits
     (profiles_of
        (snd (bookSession ''s1'' ''u1''
           (snd (bookSession ''s1'' ''u1''
              (demo_world\<lparr>faults := [None, None, None, None, Some (RemoteFailure ''timeout'')]\<rparr>)))))
        ''u1'') = [0]"
  by (simp add: bookSession_def demo_world_def backend_defs profiles_of_def enrollments_of_def)

text \<open>
  C1, amended: let the store hold at most one enrollment row for the user and the
  session, let the pre-check request of each of the two calls be served, and let the
  first call throw no error of the backend (it returns, or throws
  \<^verbatim>\<open>Error('Already enrolled')\<close>). Then the second call throws \<^verbatim>\<open>Error('Already enrolled')\<close>
  and changes no row of the store, and the first call leaves every balance as it was or
  one lower: the balance is decremented at most once. The other requests of the first
  call may fail or be served.
\<close>

theorem bookSession_twice:
  assumes "length (enrollments_of w s u) \<le> 1"
      and "fault_at w 0 = None"
      and "fst (bookSession s u w) = Inr () \<or> fst (bookSession s u w) = Inl (Error ''Already enrolled'')"
      and "w1 = snd (bookSession s u w)"
      and "fault_at w1 0 = None"
  shows "bookSession s u w1 = (Inl (Error ''Already enrolled''), w1\<lparr>faults := tl (faults w1)\<rparr>) \<and>
         list_all2 unchanged_or_one_less (profiles w) (profiles w1)"
proof -
  obtain row where "enrollments_of w1 s u = [row]"
    using bookSession_leaves_one_row [OF assms(1-3)] assms(4) by blast
  from bookSession_enrolled_served [OF assms(5) this] show ?thesis
    by (simp add: assms(4) bookSession_profiles)
qed

theorem bookSession_twice_witness:
  "length (enrollments_of demo_world ''s1'' ''u1'') \<le> 1 \<and>
   fault_at demo_world 0 = None \<and>
   fst (bookSession ''s1'' ''u1'' demo_world) = Inr () \<and>
   fault_at (snd (bookSession ''s1'' ''u1'' demo_world)) 0 = None \<and>
   map package_credits (profiles (snd (bookSession ''s1'' ''u1'' demo_world))) = [1, 0] \<and>
   bookSession ''s1'' ''u1'' (snd (bookSession ''s1'' ''u1'' demo_world)) =
     (Inl (Error ''Already enrolled''),
      (snd (bookSession ''s1'' ''u1'' demo_world))
        \<lparr>faults := tl (faults (snd (bookSession ''s1'' ''u1'' demo_world)))\<rparr>) \<and>
   list_all2 unchanged_or_one_less (profiles demo_world)
     (profiles (snd (bookSession ''s1'' ''u1'' demo_world)))"
proof -
  have one: "length (enrollments_of demo_world ''s1'' ''u1'') \<le> 1"
    by (simp add: enrollments_of_def demo_world_def)
  have served: "fault_at demo_world 0 = None"
    by (simp add: fault_at_def demo_world_def)
  have first: "fst (bookSession ''s1'' ''u1'' demo_world) = Inr () \<and>
      fault_at (snd (bookSession ''s1'' ''u1'' demo_world)) 0 = None \<and>
      map package_credits (profiles (snd (bookSession ''s1'' ''u1'' demo_world))) = [1, 0]"
    by (simp add: bookSession_def demo_world_def backend_defs fault_at_def)
  from first have booked: "fst (bookSession ''s1'' ''u1'' demo_world) = Inr () \<or>
      fst (bookSession ''s1'' ''u1'' demo_world) = Inl (Error ''Already enrolled'')"
    by simp
  from first have again: "fault_at (snd (bookSession ''s1'' ''u1'' demo_world)) 0 = None"
    by simp
  from bookSession_twice [OF one served booked refl again] one served first show ?thesis
    by blast
qed

section \<open>Packages and credits\<close>

lemma updatePackage_purchases: "purchases (snd (updatePackage pkg w)) = purchases w"
  by (simp add: updatePackage_def update_package_def next_fault_eq split: option.splits)

lemma purchasePackage_ledger:
  assumes "fst (purchasePackage u k w) = Inr ()" and "packages_of w k = [P]"
  shows "purchases (snd (purchasePackage u k w)) =
           purchases w @
             [\<lparr>pur_id = decimal (next_key w), pur_user_id = u, pur_package_id = k,
               package_name = pkg_name P, amount_paid = pkg_price P,
               credits_added = pkg_credits P\<rparr>]"
  using assms
  by (simp add: purchasePackage_def request_steps single_def packages_of_def
      split: option.splits prod.splits sum.splits)

lemma purchasePackage_balance:
  assumes "fst (purchasePackage u k w) = Inr ()" and "packages_of w k = [P]"
      and "fault_at w 2 = None" and "fault_at w 3 = None" and "profiles_of w u = [p]"
  shows "profiles (snd (purchasePackage u k w)) =
           map (\<lambda>q. if p_id q = u then q\<lparr>package_credits := package_credits p + pkg_credits P\<rparr> else q)
             (profiles w)"
  using assms
  by (simp add: purchasePackage_def request_steps single_def packages_of_def profiles_of_def
      credits_or_0_def numeral_2_eq_2 numeral_3_eq_3
      split: option.splits prod.splits sum.splits)

text \<open>The purchase completes when its first two requests are served and the package exists.\<close>

lemma purchasePackage_completes:
  assumes "fault_at w 0 = None" and "fault_at w 1 = None" and "packages_of w k = [P]"
  shows "fst (purchasePackage u k w) = Inr ()"
  using assms
  by (simp add: purchasePackage_def request_steps single_def packages_of_def
      split: option.splits prod.splits sum.splits)

text \<open>
  C2, as claimed: for every user and every existing package \<open>P\<close>, after
  \<^verbatim>\<open>purchasePackage\<close> completes the balance is the balance before plus the credits of \<open>P\<close>,
  and one ledger row records the name and the price of \<open>P\<close>. The first half fails:
  \<^verbatim>\<open>purchasePackage\<close> reads no error of its two profile requests. The user \<open>u1\<close> has two
  credits and buys the package of ten; the read of the balance times out and the update
  is served. The purchase completes and the balance is 10, not 12.
\<close>

theorem purchasePackage_completed_but_balance_overwritten:
  "packages_of demo_world ''k1'' =
     [\<lparr>pkg_id = ''k1'', pkg_name = ''Ten pack'', pkg_credits = 10, pkg_price = 250,
       pkg_active = True\<rparr>] \<and>
   map package_credits (profiles_of demo_world ''u1'') = [2] \<and>
   fst (purchasePackage ''u1'' ''k1''
          (demo_world\<lparr>faults := [None, None, Some (RemoteFailure ''timeout'')]\<rparr>)) = Inr () \<and>
   map package_credits
     (profiles_of
        (snd (purchasePackage ''u1'' ''k1''
                (demo_world\<lparr>faults := [None, None, Some (RemoteFailure ''timeout'')]\<rparr>))) ''u1'') =
     [10]"
  by (simp add: purchasePackage_def demo_world_def backend_defs profiles_of_def packages_of_def
      credits_or_0_def)

text \<open>
  C2, amended: for every user and every existing package \<open>P\<close>, after \<^verbatim>\<open>purchasePackage\<close>
  completes the ledger has one more row, last, holding the name and the price that \<open>P\<close>
  had, as values: a later \<^verbatim>\<open>updatePackage\<close> leaves the ledger as it is. If moreover the
  read and the update of the profile (the third and the fourth request) are served, the
  user has one profile row, and the balance, the credits of \<open>P\<close> and their sum are safe
  integers, then the balance afterwards is the balance before plus the credits of \<open>P\<close>.
\<close>

theorem purchasePackage_completed:
  assumes "fst (purchasePackage u k w) = Inr ()"
      and "packages_of w k = [P]"
      and "w' = snd (purchasePackage u k w)"
  shows "purchases w' =
           purchases w @
             [\<lparr>pur_id = decimal (next_key w), pur_user_id = u, pur_package_id = k,
               package_name = pkg_name P, amount_paid = pkg_price P,
               credits_added = pkg_credits P\<rparr>] \<and>
         purchases (snd (updatePackage P' w')) = purchases w' \<and>
         (fault_at w 2 = None \<longrightarrow> fault_at w 3 = None \<longrightarrow> profiles_of w u = [p] \<longrightarrow>
          safe_integer (package_credits p) \<longrightarrow> safe_integer (pkg_credits P) \<longrightarrow>
          safe_integer (package_credits p + pkg_credits P) \<longrightarrow>
            profiles_of w' u = [p\<lparr>package_credits := package_credits p + pkg_credits P\<rparr>])"
proof -
  let ?v = "package_credits p + pkg_credits P"
  have "profiles_of w' u = [p\<lparr>package_credits := ?v\<rparr>]"
    if served: "fault_at w 2 = None" "fault_at w 3 = None" and mine: "profiles_of w u = [p]"
  proof -
    have id: "p_id p = u"
      using filter_single_mem [of "\<lambda>q. p_id q = u" "profiles w" p] mine
      by (simp add: profiles_of_def)
    have same: "map (\<lambda>q. if p_id q = u then q\<lparr>package_credits := ?v\<rparr> else q) (profiles w) =
        map (\<lambda>q. if p_id q = u then p\<lparr>package_credits := ?v\<rparr> else q) (profiles w)"
      using filter_single_unique [of "\<lambda>q. p_id q = u" "profiles w" p] mine
      by (auto simp add: profiles_of_def)
    show ?thesis
      using filter_update_single [of "\<lambda>q. p_id q = u" "profiles w" p "\<lambda>q. q\<lparr>package_credits := ?v\<rparr>"]
        mine id
      by (simp add: assms(3) purchasePackage_balance [OF assms(1,2) served mine]
          profiles_of_def same)
  qed
  then show ?thesis
    by (simp add: assms(3) purchasePackage_ledger [OF assms(1,2)] updatePackage_purchases)
qed

theorem purchasePackage_completed_witness:
  "fst (purchasePackage ''u1'' ''k1'' demo_world) = Inr () \<and>
   fault_at demo_world 2 = None \<and> fault_at demo_world 3 = None \<and>
   safe_integer 2 \<and> safe_integer 10 \<and> safe_integer (2 + 10) \<and>
   purchases (snd (purchasePackage ''u1'' ''k1'' demo_world)) =
     [\<lparr>pur_id = ''7'', pur_user_id = ''u1'', pur_package_id = ''k1'', package_name = ''Ten pack'',
       amount_paid = 250, credits_added = 10\<rparr>] \<and>
   purchases (snd (updatePackage
       \<lparr>pkg_id = ''k1'', pkg_name = ''Twelve pack'', pkg_credits = 12, pkg_price = 280,
         pkg_active = True\<rparr> (snd (purchasePackage ''u1'' ''k1'' demo_world)))) =
     purchases (snd (purchasePackage ''u1'' ''k1'' demo_world)) \<and>
   map package_credits (profiles_of (snd (purchasePackage ''u1'' ''k1'' demo_world)) ''u1'') = [12]"
proof -
  let ?ten = "\<lparr>pkg_id = ''k1'', pkg_name = ''Ten pack'', pkg_credits = 10, pkg_price = 250,
               pkg_active = True\<rparr>"
  let ?ann = "\<lparr>p_id = ''u1'', p_email = ''ann@example.org'', full_name = ''Ann'', p_role = ''client'',
               avatar_url = ''a.png'', package_credits = 2\<rparr>"
  have served: "fault_at demo_world 0 = None" "fault_at demo_world 1 = None"
      "fault_at demo_world 2 = None" "fault_at demo_world 3 = None"
    by (simp_all add: fault_at_def demo_world_def)
  have pkg: "packages_of demo_world ''k1'' = [?ten]"
    by (simp add: packages_of_def demo_world_def)
  have ann: "profiles_of demo_world ''u1'' = [?ann]"
    by (simp add: profiles_of_def demo_world_def)
  have completed: "fst (purchasePackage ''u1'' ''k1'' demo_world) = Inr ()"
    by (rule purchasePackage_completes [OF served(1,2) pkg])
  have safe: "safe_integer 2 \<and> safe_integer 10 \<and> safe_integer (2 + 10)"
    by (simp add: safe_integer_def)
  have key: "decimal (next_key demo_world) = ''7''" and none: "purchases demo_world = []"
    by (simp_all add: demo_world_def decimal.simps digit_char_def)
  from purchasePackage_completed [OF completed pkg refl, where p = ?ann] served ann safe completed
  show ?thesis
    unfolding key none by simp
qed








section \<open>Instructor availability\<close>

text \<open>Printing an integer and reading it again gives the integer, for every integer.\<close>

lemma digit_val_digit_char: "d < 10 \<Longrightarrow> digit_val (digit_char d) = Some d"
proof -
  assume "d < 10"
  then have "d = 0 \<or> d = 1 \<or> d = 2 \<or> d = 3 \<or> d = 4 \<or> d = 5 \<or> d = 6 \<or> d = 7 \<or> d = 8 \<or> d = 9"
    by arith
  then show ?thesis
    by (elim disjE) (simp_all add: digit_val_def digit_char_def)
qed

lemma digit_val_plain:
  assumes "digit_val c = Some d"
  shows "\<not> is_js_space c \<and> c \<noteq> CHR ''-'' \<and> c \<noteq> CHR ''+''"
  using assms by (auto simp add: digit_val_def is_js_space_def split: if_splits)

lemma digits_val_snoc:
  "digits_val (cs @ [c]) acc =
     (case digits_val cs acc of
        None \<Rightarrow> None
      | Some v \<Rightarrow> (case digit_val c of None \<Rightarrow> None | Some d \<Rightarrow> Some (10 * v + d)))"
  by (induction cs arbitrary: acc) (simp_all split: option.splits)

lemma digits_val_decimal: "digits_val (decimal n) 0 = Some n"
proof (induction n rule: decimal.induct)
  case (1 n)
  show ?case
  proof (cases "n < 10")
    case True
    then show ?thesis
      by (subst decimal.simps) (simp add: digit_val_digit_char)
  next
    case False
    with 1 have "digits_val (decimal (n div 10)) 0 = Some (n div 10)" by simp
    with False show ?thesis
      by (subst decimal.simps) (simp add: digits_val_snoc digit_val_digit_char)
  qed
qed

lemma digits_val_all: "digits_val cs acc = Some v \<Longrightarrow> \<forall>c \<in> set cs. digit_val c \<noteq> None"
  by (induction cs arbitrary: acc) (auto split: option.splits)

lemma decimal_not_Nil: "decimal n \<noteq> []"
  by (subst decimal.simps) simp

lemma js_trim_plain:
  assumes "\<forall>c \<in> set s. \<not> is_js_space c"
  shows "js_trim s = s"
proof -
  have "dropWhile is_js_space t = t" if "\<forall>c \<in> set t. \<not> is_js_space c" for t
    using that by (cases t) simp_all
  from this [of s] this [of "rev s"] show ?thesis
    using assms by (simp add: js_trim_def)
qed

lemma Number_String_int: "StringToNumber (NumberToString (Fin i)) = Fin i"
proof -
  have digits: "\<forall>c \<in> set (decimal n). digit_val c \<noteq> None" for n
    using digits_val_all [OF digits_val_decimal] .
  have plain: "\<forall>c \<in> set (decimal n). \<not> is_js_space c \<and> c \<noteq> CHR ''-'' \<and> c \<noteq> CHR ''+''" for n
    using digits [of n] digit_val_plain by blast
  have pos: "StringToNumber (decimal n) = Fin (int n)" for n
  proof -
    obtain c cs where split: "decimal n = c # cs"
      using decimal_not_Nil [of n] by (cases "decimal n") auto
    have "js_trim (decimal n) = decimal n"
      using plain [of n] by (simp add: js_trim_plain)
    moreover have "c \<noteq> CHR ''-'' \<and> c \<noteq> CHR ''+''"
      using plain [of n] split by simp
    moreover have "digits_val (c # cs) 0 = Some n"
      using digits_val_decimal [of n] split by simp
    ultimately show ?thesis
      using split by (simp add: StringToNumber_def unsigned_val_def)
  qed
  have neg: "StringToNumber (CHR ''-'' # decimal n) = Fin (- int n)" for n
  proof -
    have "\<forall>c \<in> set (CHR ''-'' # decimal n). \<not> is_js_space c"
      using plain [of n] by (simp add: is_js_space_def)
    then have "js_trim (CHR ''-'' # decimal n) = CHR ''-'' # decimal n"
      by (rule js_trim_plain)
    then show ?thesis
      using digits_val_decimal [of n] decimal_not_Nil [of n]
      by (simp add: StringToNumber_def unsigned_val_def)
  qed
  show ?thesis
    by (simp add: NumberToString_def pos neg)
qed

text \<open>
  C4. On a backend that serves every request, an availability record whose
  \<^verbatim>\<open>dayOfWeek\<close> is an integer from 0 to 6, written with \<^verbatim>\<open>createAvailability\<close>, is the last
  record that \<^verbatim>\<open>getAvailability\<close> lists for its instructor, unchanged but for the id the
  store gave it: the day is the same integer. The store holds the day as text; a row
  holding the decimal text and a row holding the number itself both read as that
  integer.
\<close>

theorem dayOfWeek_roundtrip:
  assumes "faults w = []" and "0 \<le> d" and "d \<le> 6" and "dayOfWeek avail = Fin d"
      and "w' = snd (createAvailability avail w)"
  shows "fst (createAvailability avail w) = Inr () \<and>
         fst (getAvailability (av_instructorId avail) w') =
           Inr (map toAvailability (availability_of w (av_instructorId avail)) @
                [avail\<lparr>av_id := decimal (next_key w)\<rparr>]) \<and>
         day_of_week (last (availability w')) = JStr (decimal (nat d)) \<and>
         dayOfWeek (toAvailability (row\<lparr>day_of_week := JStr (decimal (nat d))\<rparr>)) = Fin d \<and>
         dayOfWeek (toAvailability (row\<lparr>day_of_week := JNum (Fin d)\<rparr>)) = Fin d"
proof -
  have run: "createAvailability avail w =
      (Inr (), w\<lparr>next_key := Suc (next_key w),
                 availability := availability w @ [createAvailability_payload avail (decimal (next_key w))]\<rparr>)"
    using assms(1)
    by (simp add: createAvailability_def insert_availability_def next_fault_served fresh_key_def)
  have printed: "js_String (JNum (Fin d)) = decimal (nat d)"
    using assms(2) by (simp add: js_String_def NumberToString_def)
  have number: "StringToNumber (decimal (nat d)) = Fin d"
    using Number_String_int [of d] assms(2) by (simp add: NumberToString_def)
  have readback: "toAvailability (createAvailability_payload avail key) = avail\<lparr>av_id := key\<rparr>" for key
    using assms(4) printed number
    by (simp add: toAvailability_def createAvailability_payload_def js_Number_def)
  have mine: "a_instructor_id (createAvailability_payload avail key) = av_instructorId avail" for key
    by (simp add: createAvailability_payload_def)
  have "fst (getAvailability (av_instructorId avail) w') =
           Inr (map toAvailability (availability_of w (av_instructorId avail)) @
                [avail\<lparr>av_id := decimal (next_key w)\<rparr>])"
    using assms(1)
    by (simp add: assms(5) run getAvailability_def next_fault_served select_rows_def
        availability_of_def readback mine)
  moreover have "day_of_week (last (availability w')) = JStr (decimal (nat d))"
    using assms(4) printed by (simp add: assms(5) run createAvailability_payload_def)
  moreover have "dayOfWeek (toAvailability (row\<lparr>day_of_week := JStr (decimal (nat d))\<rparr>)) = Fin d"
    using number by (simp add: toAvailability_def js_Number_def)
  moreover have "dayOfWeek (toAvailability (row\<lparr>day_of_week := JNum (Fin d)\<rparr>)) = Fin d"
    by (simp add: toAvailability_def js_Number_def)
  ultimately show ?thesis
    by (simp add: run)
qed

theorem dayOfWeek_roundtrip_witness:
  "faults demo_world = [] \<and>
   fst (createAvailability
          \<lparr>av_id = ''new'', av_instructorId = ''u2'', dayOfWeek = Fin 3, av_startTime = ''10:00'',
            av_endTime = ''11:00''\<rparr> demo_world) = Inr () \<and>
   fst (getAvailability ''u2''
          (snd (createAvailability
             \<lparr>av_id = ''new'', av_instructorId = ''u2'', dayOfWeek = Fin 3, av_startTime = ''10:00'',
               av_endTime = ''11:00''\<rparr> demo_world))) =
     Inr [\<lparr>av_id = ''a1'', av_instructorId = ''u2'', dayOfWeek = NaN, av_startTime = ''09:00'',
            av_endTime = ''12:00''\<rparr>,
          \<lparr>av_id = ''7'', av_instructorId = ''u2'', dayOfWeek = Fin 3, av_startTime = ''10:00'',
            av_endTime = ''11:00''\<rparr>] \<and>
   day_of_week (last (availability (snd (createAvailability
             \<lparr>av_id = ''new'', av_instructorId = ''u2'', dayOfWeek = Fin 3, av_startTime = ''10:00'',
               av_endTime = ''11:00''\<rparr> demo_world)))) = JStr ''3''"
proof -
  let ?avail = "\<lparr>av_id = ''new'', av_instructorId = ''u2'', dayOfWeek = Fin 3,
                 av_startTime = ''10:00'', av_endTime = ''11:00''\<rparr>"
  have served: "faults demo_world = []"
    by (simp add: demo_world_def)
  have day: "dayOfWeek ?avail = Fin 3"
    by simp
  have key: "decimal (next_key demo_world) = ''7''" and three: "decimal (nat 3) = ''3''"
    by (simp_all add: demo_world_def decimal.simps digit_char_def)
  have stored: "map toAvailability (availability_of demo_world ''u2'') =
      [\<lparr>av_id = ''a1'', av_instructorId = ''u2'', dayOfWeek = NaN, av_startTime = ''09:00'',
        av_endTime = ''12:00''\<rparr>]"
    by (simp add: availability_of_def demo_world_def toAvailability_def js_Number_def
        StringToNumber_def js_trim_def is_js_space_def unsigned_val_def digit_val_def)
  from dayOfWeek_roundtrip [where w = demo_world and d = 3 and avail = ?avail, OF served _ _ day refl]
    served
  show ?thesis
    unfolding key three by (simp add: stored)
qed

section \<open>Settings\<close>

text \<open>
  C6. When the settings table has no rows and the request is served, \<^verbatim>\<open>getSettings\<close>
  returns the defaults: pool capacity 25, cancellation window 24 hours, maintenance
  mode off and the contact email \<^verbatim>\<open>admin@lovableswim.com\<close>, in which there is neither a
  double nor a single quote.
\<close>

theorem getSettings_defaults:
  assumes "settings w = []" and "fault_at w 0 = None"
  shows "fst (getSettings w) =
           Inr \<lparr>poolCapacity = Fin 25, cancellationHours = Fin 24, maintenanceMode = False,
                 contactEmail = ''admin@lovableswim.com''\<rparr> \<and>
         CHR 0x22 \<notin> set ''admin@lovableswim.com'' \<and>
         CHR 0x27 \<notin> set ''admin@lovableswim.com''"
  using assms
  by (simp add: getSettings_def next_fault_eq select_rows_def settings_object_def property_def
      number_or_def js_Number_def js_Boolean_def js_or_def js_String_def strip_quotes_def)

theorem getSettings_defaults_witness:
  "settings demo_world = [] \<and> fault_at demo_world 0 = None \<and>
   fst (getSettings demo_world) =
     Inr \<lparr>poolCapacity = Fin 25, cancellationHours = Fin 24, maintenanceMode = False,
           contactEmail = ''admin@lovableswim.com''\<rparr>"
proof -
  have empty: "settings demo_world = []" and served: "fault_at demo_world 0 = None"
    by (simp_all add: demo_world_def fault_at_def)
  from getSettings_defaults [OF empty served] empty served show ?thesis
    by blast
qed

end
